theory Spec2Isabelle
  imports Main
begin

section \<open>The data model of ecommerce.js\<close>

text \<open>
  JavaScript numbers (prices, quantities, weights, balances, time values) are modelled
  by \<^typ>\<open>int\<close>: the development covers integer-valued numbers, on which the
  comparisons, additions, subtractions and multiplications of the source are exact.
  Nothing in the source restricts the sign of a number, so none is restricted here.

  The three classes \<^verbatim>\<open>Product\<close>, \<^verbatim>\<open>PerishableProduct\<close> and
  \<^verbatim>\<open>ShippableProduct\<close> are one record with a \<open>variant\<close> field that carries
  the fields the subclasses add. The expiry date is the time value of
  \<^verbatim>\<open>new Date(expiryDate)\<close>; \<open>None\<close> is the invalid date (time value NaN).
\<close>

datatype variant =
    Plain
  | Perishable "int option" int
  | Shippable int

record Product =
  name :: string
  price :: int
  quantity :: int
  variant :: variant

text \<open>
  Product objects are shared and mutated through references: a cart item holds a
  reference to its product, and two items may hold the same one. The heap maps every
  reference to the object it denotes.
\<close>

type_synonym ref = nat

type_synonym heap = "ref \<Rightarrow> Product"

record CartItem =
  item_product :: ref
  item_quantity :: int

record Customer =
  customer_name :: string
  balance :: int

text \<open>Every \<^verbatim>\<open>throw new Error(...)\<close> of the source, with the values its message shows.\<close>

datatype error =
    EmptyCart
  | ExpiredProduct string
  | OutOfStock string
  | InsufficientStock string
  | InsufficientBalance int int

text \<open>
  Every \<^verbatim>\<open>console.log\<close> call of the source is one line of output, kept with the
  values that the template string interpolates. \<open>ShipmentTotal\<close> holds the total
  weight in grams, which the source prints in kilograms with one decimal.
\<close>

datatype line =
    ShipmentHeader
  | ShipmentItem int string int
  | ShipmentTotal int
  | ReceiptHeader
  | ReceiptItem int string int
  | ReceiptSeparator
  | ReceiptSubtotal int
  | ReceiptShipping int
  | ReceiptAmount int
  | ReceiptBalance int

text \<open>
  The state that the operations act on: the product objects, the items of the cart
  object, the customer object, and the lines written to the console so far.
\<close>

record state =
  heap :: heap
  cart :: "CartItem list"
  customer :: Customer
  console :: "line list"

section \<open>Product classes\<close>

text \<open>\<open>isExpired\<close> takes the value of \<^verbatim>\<open>new Date()\<close> at the call as \<open>today\<close>.
  A comparison with the invalid date is false.\<close>

fun isExpired :: "int \<Rightarrow> Product \<Rightarrow> bool" where
  "isExpired today p =
     (case variant p of
        Plain \<Rightarrow> False
      | Perishable expiryDate w \<Rightarrow>
          (case expiryDate of None \<Rightarrow> False | Some d \<Rightarrow> d < today)
      | Shippable w \<Rightarrow> False)"

fun isShippable :: "Product \<Rightarrow> bool" where
  "isShippable p =
     (case variant p of
        Plain \<Rightarrow> False
      | Perishable expiryDate w \<Rightarrow> True
      | Shippable w \<Rightarrow> True)"

fun getName :: "Product \<Rightarrow> string" where
  "getName p = name p"

fun getWeight :: "Product \<Rightarrow> int" where
  "getWeight p =
     (case variant p of
        Plain \<Rightarrow> 0
      | Perishable expiryDate w \<Rightarrow> w
      | Shippable w \<Rightarrow> w)"

text \<open>A mutating method returns the error it throws, if any, and the object as the
  call leaves it.\<close>

fun reduceQuantity :: "int \<Rightarrow> Product \<Rightarrow> error option \<times> Product" where
  "reduceQuantity qty p =
     (if quantity p < qty then (Some (OutOfStock (name p)), p)
      else (None, p\<lparr>quantity := quantity p - qty\<rparr>))"

section \<open>Cart items, cart and customer\<close>

fun getTotalPrice :: "heap \<Rightarrow> CartItem \<Rightarrow> int" where
  "getTotalPrice h item = price (h (item_product item)) * item_quantity item"

fun getProductName :: "heap \<Rightarrow> CartItem \<Rightarrow> string" where
  "getProductName h item = name (h (item_product item))"

fun item_getWeight :: "heap \<Rightarrow> CartItem \<Rightarrow> int" where
  "item_getWeight h item = getWeight (h (item_product item)) * item_quantity item"

fun item_isShippable :: "heap \<Rightarrow> CartItem \<Rightarrow> bool" where
  "item_isShippable h item = isShippable (h (item_product item))"

fun item_isExpired :: "int \<Rightarrow> heap \<Rightarrow> CartItem \<Rightarrow> bool" where
  "item_isExpired today h item = isExpired today (h (item_product item))"

fun add :: "ref \<Rightarrow> int \<Rightarrow> state \<Rightarrow> error option \<times> state" where
  "add product qty s =
     (if qty > quantity (heap s product)
      then (Some (InsufficientStock (name (heap s product))), s)
      else (None, s\<lparr>cart := cart s @ [\<lparr>item_product = product, item_quantity = qty\<rparr>]\<rparr>))"

fun isEmpty :: "state \<Rightarrow> bool" where
  "isEmpty s = (length (cart s) = 0)"

fun getItems :: "state \<Rightarrow> CartItem list" where
  "getItems s = cart s"

fun getSubtotal :: "state \<Rightarrow> int" where
  "getSubtotal s = foldl (\<lambda>sum item. sum + getTotalPrice (heap s) item) 0 (cart s)"

fun getShippableItems :: "state \<Rightarrow> CartItem list" where
  "getShippableItems s = filter (\<lambda>item. item_isShippable (heap s) item) (cart s)"

fun getTotalWeight :: "state \<Rightarrow> int" where
  "getTotalWeight s =
     foldl (\<lambda>total item. total + item_getWeight (heap s) item) 0 (getShippableItems s)"

fun pay :: "int \<Rightarrow> Customer \<Rightarrow> error option \<times> Customer" where
  "pay amount c =
     (if balance c < amount then (Some (InsufficientBalance amount (balance c)), c)
      else (None, c\<lparr>balance := balance c - amount\<rparr>))"

fun getBalance :: "Customer \<Rightarrow> int" where
  "getBalance c = balance c"

section \<open>Shipping service\<close>

fun ship :: "CartItem list \<Rightarrow> state \<Rightarrow> state" where
  "ship items s =
     (let shown = map (\<lambda>item. ShipmentItem (item_quantity item)
                     (getProductName (heap s) item) (item_getWeight (heap s) item)) items;
          totalWeight = foldl (\<lambda>sum item. sum + item_getWeight (heap s) item) 0 items
      in s\<lparr>console := console s @ [ShipmentHeader] @ shown @ [ShipmentTotal totalWeight]\<rparr>)"

section \<open>Checkout\<close>

text \<open>
  The \<^verbatim>\<open>for\<close> loop of \<open>checkout\<close>. \<open>now k\<close> is the value \<^verbatim>\<open>new Date()\<close>
  has while the loop is at the item of index \<open>k\<close>; the loop returns the error that
  ended it, if any, and the heap as it stands then.
\<close>

fun checkout_loop :: "(nat \<Rightarrow> int) \<Rightarrow> nat \<Rightarrow> CartItem list \<Rightarrow> heap \<Rightarrow> error option \<times> heap" where
  "checkout_loop now k [] h = (None, h)"
| "checkout_loop now k (item # rest) h =
     (if item_isExpired (now k) h item
      then (Some (ExpiredProduct (getProductName h item)), h)
      else (case reduceQuantity (item_quantity item) (h (item_product item)) of
              (Some e, p) \<Rightarrow> (Some e, h(item_product item := p))
            | (None, p) \<Rightarrow> checkout_loop now (Suc k) rest (h(item_product item := p))))"

fun receipt :: "state \<Rightarrow> int \<Rightarrow> int \<Rightarrow> int \<Rightarrow> line list" where
  "receipt s subtotal shippingFee amount =
     [ReceiptHeader]
     @ map (\<lambda>item. ReceiptItem (item_quantity item)
              (getProductName (heap s) item) (getTotalPrice (heap s) item)) (getItems s)
     @ [ReceiptSeparator, ReceiptSubtotal subtotal, ReceiptShipping shippingFee,
        ReceiptAmount amount, ReceiptBalance (getBalance (customer s))]"

fun checkout :: "(nat \<Rightarrow> int) \<Rightarrow> state \<Rightarrow> error option \<times> state" where
  "checkout now s =
     (if isEmpty s then (Some EmptyCart, s)
      else (case checkout_loop now 0 (getItems s) (heap s) of
              (Some e, h) \<Rightarrow> (Some e, s\<lparr>heap := h\<rparr>)
            | (None, h) \<Rightarrow>
                (let s1 = s\<lparr>heap := h\<rparr>;
                     subtotal = getSubtotal s1;
                     shippingFee = (if getTotalWeight s1 > 0 then 30 else 0);
                     total = subtotal + shippingFee
                 in (case pay total (customer s1) of
                       (Some e, c) \<Rightarrow> (Some e, s1\<lparr>customer := c\<rparr>)
                     | (None, c) \<Rightarrow>
                         (let s2 = s1\<lparr>customer := c\<rparr>;
                              shippableItems = getShippableItems s2;
                              s3 = (if length shippableItems > 0
                                    then ship shippableItems s2 else s2)
                          in (None, s3\<lparr>console := console s3
                                        @ receipt s3 subtotal shippingFee total\<rparr>))))))"

section \<open>The objects of the demo\<close>

text \<open>The products and the customer that the demo at the end of the source creates; the
  expiry date 2025-08-01 has the time value 1754006400000.\<close>

definition cheese :: Product where
  "cheese = \<lparr>name = ''Cheese'', price = 100, quantity = 5,
             variant = Perishable (Some 1754006400000) 200\<rparr>"

definition biscuits :: Product where
  "biscuits = \<lparr>name = ''Biscuits'', price = 150, quantity = 2,
               variant = Perishable (Some 1754006400000) 700\<rparr>"

definition tv :: Product where
  "tv = \<lparr>name = ''TV'', price = 300, quantity = 10, variant = Shippable 10000\<rparr>"

definition scratchCard :: Product where
  "scratchCard = \<lparr>name = ''Scratch Card'', price = 50, quantity = 10, variant = Plain\<rparr>"

definition ali :: Customer where
  "ali = \<lparr>customer_name = ''Ali'', balance = 1000\<rparr>"

text \<open>The demo's heap: references 0 to 3 are the four products in the order in which
  the demo creates them.\<close>

definition demo_heap :: heap where
  "demo_heap = (\<lambda>r. scratchCard)(0 := cheese, 1 := biscuits, 2 := tv)"

definition demo_state :: "CartItem list \<Rightarrow> state" where
  "demo_state items = \<lparr>heap = demo_heap, cart = items, customer = ali, console = []\<rparr>"


text \<open>Two clocks that stand still during a checkout: one on 2025-06-15, before the
  demo's expiry date, and one on 2025-11-03, after it.\<close>

definition before_expiry :: "nat \<Rightarrow> int" where
  "before_expiry k = 1750000000000"


text \<open>Carts over the demo's products: the demo's own cart, a cart that holds the TV
  twice with the cheese in between, and a cart whose second item is the first perishable
  one.\<close>

definition demo_cart :: "CartItem list" where
  "demo_cart = [\<lparr>item_product = 0, item_quantity = 2\<rparr>,
                \<lparr>item_product = 1, item_quantity = 1\<rparr>,
                \<lparr>item_product = 3, item_quantity = 1\<rparr>]"



text \<open>A cart that asks for more than the customer can pay, and a state whose cart holds
  the weightless milk and a scratch card.\<close>

definition tv_cart :: "CartItem list" where
  "tv_cart = [\<lparr>item_product = 3, item_quantity = 1\<rparr>, \<lparr>item_product = 2, item_quantity = 4\<rparr>]"


text \<open>A cart that holds the TV twice, six of them each time.\<close>

definition double_cart :: "CartItem list" where
  "double_cart = [\<lparr>item_product = 2, item_quantity = 6\<rparr>, \<lparr>item_product = 2, item_quantity = 6\<rparr>]"

section \<open>What a run of the loop asks of the stock\<close>

text \<open>\<open>demand items r\<close> is the total quantity that the items holding the reference
  \<open>r\<close> ask for, and \<open>deduct items h\<close> is the heap \<open>h\<close> with every product's stock
  lowered by the demand for it.\<close>

definition demand :: "CartItem list \<Rightarrow> ref \<Rightarrow> int" where
  "demand items r =
     sum_list (map item_quantity (filter (\<lambda>item. item_product item = r) items))"

definition deduct :: "CartItem list \<Rightarrow> heap \<Rightarrow> heap" where
  "deduct items h = (\<lambda>r. (h r)\<lparr>quantity := quantity (h r) - demand items r\<rparr>)"

text \<open>\<open>unexpired now h items\<close>: no item is expired at the time the loop reaches it.
  \<open>in_stock h items\<close>: every item finds its quantity in what the items before it have
  left of its product's stock.\<close>

definition unexpired :: "(nat \<Rightarrow> int) \<Rightarrow> heap \<Rightarrow> CartItem list \<Rightarrow> bool" where
  "unexpired now h items =
     (\<forall>j<length items. \<not> item_isExpired (now j) h (items ! j))"

definition in_stock :: "heap \<Rightarrow> CartItem list \<Rightarrow> bool" where
  "in_stock h items =
     (\<forall>j<length items. item_quantity (items ! j)
        \<le> quantity (h (item_product (items ! j)))
          - demand (take j items) (item_product (items ! j)))"

text \<open>The shipping fee that line 177 of the source computes, the lines that the
  shipment of the cart's shippable items writes, and the lines written between two
  states.\<close>

definition shippingFee :: "state \<Rightarrow> int" where
  "shippingFee s = (if getTotalWeight s > 0 then 30 else 0)"

definition notice :: "state \<Rightarrow> line list" where
  "notice s = (if getShippableItems s = [] then []
     else console (ship (getShippableItems s) (s\<lparr>console := []\<rparr>)))"


section \<open>The loop of checkout\<close>

text \<open>
  The loop passes exactly when no item is expired as the loop reaches it and every item
  finds its quantity in the stock that the items before it have left; the heap it leaves
  then is the starting heap with every demand deducted. Whatever its outcome, the heap
  the loop leaves is the starting heap with the demand of some prefix of the items
  deducted, and a loop that stops at item \<open>k\<close> has deducted the first \<open>k\<close> items.
\<close>

lemma demand_Nil: "demand [] r = 0"
  by (simp add: demand_def)

lemma demand_Cons:
  "demand (item # items) r =
     (if item_product item = r then item_quantity item else 0) + demand items r"
  by (simp add: demand_def)

lemma deduct_Nil: "deduct [] h = h"
  by (simp add: deduct_def demand_Nil)

lemma deduct_Cons:
  "deduct (item # items) h =
     deduct items
       (h(item_product item := (h (item_product item))
            \<lparr>quantity := quantity (h (item_product item)) - item_quantity item\<rparr>))"
  by (rule ext) (simp add: deduct_def demand_Cons)

lemma deduct_traits:
  "name (deduct items h r) = name (h r)"
  "price (deduct items h r) = price (h r)"
  "variant (deduct items h r) = variant (h r)"
  "quantity (deduct items h r) = quantity (h r) - demand items r"
  by (simp_all add: deduct_def)

lemma item_isExpired_update:
  "item_isExpired t (h(r := (h r)\<lparr>quantity := q\<rparr>)) item = item_isExpired t h item"
  by simp

lemma item_isExpired_deduct:
  "item_isExpired t (deduct items h) item = item_isExpired t h item"
  by (simp add: deduct_traits)

declare isExpired.simps [simp del] item_isExpired.simps [simp del]

lemma unexpired_Nil: "unexpired now h []"
  by (simp add: unexpired_def)

lemma in_stock_Nil: "in_stock h []"
  by (simp add: in_stock_def)

lemma unexpired_Cons:
  "unexpired now h (item # rest) \<longleftrightarrow>
     \<not> item_isExpired (now 0) h item \<and> unexpired (\<lambda>j. now (Suc j)) h rest"
  by (simp add: unexpired_def All_less_Suc2)

lemma unexpired_update:
  "unexpired now (h(r := (h r)\<lparr>quantity := q\<rparr>)) items = unexpired now h items"
  by (simp add: unexpired_def item_isExpired_update)

lemma in_stock_Cons:
  "in_stock h (item # rest) \<longleftrightarrow>
     item_quantity item \<le> quantity (h (item_product item)) \<and>
     in_stock (h(item_product item := (h (item_product item))
                 \<lparr>quantity := quantity (h (item_product item)) - item_quantity item\<rparr>)) rest"
proof -
  let ?h = "h(item_product item := (h (item_product item))
                 \<lparr>quantity := quantity (h (item_product item)) - item_quantity item\<rparr>)"
  have step: "quantity (h r) - demand (item # items) r = quantity (?h r) - demand items r"
    for r items
    by (simp add: demand_Cons)
  show ?thesis
    unfolding in_stock_def All_less_Suc2 length_Cons nth_Cons_0 nth_Cons_Suc take_Suc_Cons
      take_0 demand_Nil step
    by simp
qed

lemma loop_Cons:
  "checkout_loop now i (item # rest) h =
     (if item_isExpired (now i) h item
      then (Some (ExpiredProduct (name (h (item_product item)))), h)
      else if quantity (h (item_product item)) < item_quantity item
      then (Some (OutOfStock (name (h (item_product item)))), h)
      else checkout_loop now (Suc i) rest
             (h(item_product item := (h (item_product item))
                  \<lparr>quantity := quantity (h (item_product item)) - item_quantity item\<rparr>)))"
  by simp

lemma loop_None_iff:
  "fst (checkout_loop now i items h) = None \<longleftrightarrow>
     unexpired (\<lambda>j. now (i + j)) h items \<and> in_stock h items"
proof (induction items arbitrary: i h)
  case Nil
  show ?case by (simp add: unexpired_Nil in_stock_Nil)
next
  case (Cons item rest)
  let ?h = "h(item_product item := (h (item_product item))
                \<lparr>quantity := quantity (h (item_product item)) - item_quantity item\<rparr>)"
  have shift: "(\<lambda>j. now (i + Suc j)) = (\<lambda>j. now (Suc i + j))"
    by simp
  show ?case
  proof (cases "item_isExpired (now i) h item \<or> quantity (h (item_product item)) < item_quantity item")
    case True
    then have "fst (checkout_loop now i (item # rest) h) \<noteq> None"
      unfolding loop_Cons by auto
    with True show ?thesis
      unfolding unexpired_Cons in_stock_Cons by auto
  next
    case False
    then have ne: "\<not> item_isExpired (now i) h item"
      and ge: "item_quantity item \<le> quantity (h (item_product item))"
      by auto
    from False have step: "checkout_loop now i (item # rest) h = checkout_loop now (Suc i) rest ?h"
      unfolding loop_Cons by simp
    have ih: "fst (checkout_loop now (Suc i) rest ?h) = None \<longleftrightarrow>
        unexpired (\<lambda>j. now (Suc i + j)) h rest \<and> in_stock ?h rest"
      unfolding Cons.IH unexpired_update by (rule refl)
    show ?thesis
      unfolding step ih unexpired_Cons in_stock_Cons shift
      using ne ge by (simp only: add_0_right simp_thms)
  qed
qed

lemma loop_None_heap:
  "fst (checkout_loop now i items h) = None \<Longrightarrow>
     snd (checkout_loop now i items h) = deduct items h"
proof (induction items arbitrary: i h)
  case Nil
  show ?case by (simp add: deduct_Nil)
next
  case (Cons item rest)
  let ?h = "h(item_product item := (h (item_product item))
                \<lparr>quantity := quantity (h (item_product item)) - item_quantity item\<rparr>)"
  from Cons.prems have step: "checkout_loop now i (item # rest) h = checkout_loop now (Suc i) rest ?h"
    unfolding loop_Cons by (auto split: if_splits)
  with Cons.prems have "fst (checkout_loop now (Suc i) rest ?h) = None"
    by (simp only:)
  then show ?case
    unfolding step deduct_Cons by (rule Cons.IH)
qed

lemma loop_passes:
  "unexpired (\<lambda>j. now (i + j)) h items \<Longrightarrow> in_stock h items \<Longrightarrow>
     checkout_loop now i items h = (None, deduct items h)"
  using loop_None_iff [of now i items h] loop_None_heap [of now i items h]
  by (simp add: prod_eq_iff)

lemma loop_append:
  "checkout_loop now i (xs @ ys) h =
     (case checkout_loop now i xs h of
        (Some e, h') \<Rightarrow> (Some e, h')
      | (None, h') \<Rightarrow> checkout_loop now (i + length xs) ys h')"
  by (induction xs arbitrary: i h) (simp_all split: prod.splits option.splits)

lemma loop_stops:
  assumes "k < length items"
    and "unexpired now h (take k items)"
    and "in_stock h (take k items)"
    and "item_isExpired (now k) h (items ! k) \<or>
         quantity (h (item_product (items ! k))) - demand (take k items) (item_product (items ! k))
           < item_quantity (items ! k)"
  shows "checkout_loop now 0 items h =
     (Some ((if item_isExpired (now k) h (items ! k) then ExpiredProduct else OutOfStock)
              (name (h (item_product (items ! k))))),
      deduct (take k items) h)"
proof -
  have split: "items = take k items @ items ! k # drop (Suc k) items"
    using assms(1) by (simp add: id_take_nth_drop)
  have len: "min (length items) k = k"
    using assms(1) by simp
  have pre: "checkout_loop now 0 (take k items) h = (None, deduct (take k items) h)"
    using loop_passes [of now 0 h "take k items"] assms(2,3) by simp
  have "checkout_loop now 0 (take k items @ items ! k # drop (Suc k) items) h =
     (Some ((if item_isExpired (now k) h (items ! k) then ExpiredProduct else OutOfStock)
              (name (h (item_product (items ! k))))),
      deduct (take k items) h)"
    unfolding loop_append pre using assms(4)
    by (auto simp: len loop_Cons item_isExpired_deduct deduct_traits simp del: checkout_loop.simps)
  then show ?thesis
    using split by simp
qed

lemma loop_heap_prefix:
  "\<exists>k\<le>length items. snd (checkout_loop now i items h) = deduct (take k items) h \<and>
      in_stock h (take k items)"
proof (induction items arbitrary: i h)
  case Nil
  show ?case by (simp add: deduct_Nil in_stock_Nil)
next
  case (Cons item rest)
  let ?h = "h(item_product item := (h (item_product item))
                \<lparr>quantity := quantity (h (item_product item)) - item_quantity item\<rparr>)"
  show ?case
  proof (cases "item_isExpired (now i) h item \<or> quantity (h (item_product item)) < item_quantity item")
    case True
    then have "snd (checkout_loop now i (item # rest) h) = deduct (take 0 (item # rest)) h \<and>
        in_stock h (take 0 (item # rest))"
      unfolding loop_Cons by (auto simp: deduct_Nil in_stock_Nil)
    then show ?thesis by blast
  next
    case False
    then have step: "checkout_loop now i (item # rest) h = checkout_loop now (Suc i) rest ?h"
      unfolding loop_Cons by simp
    from Cons.IH [of "Suc i" ?h] obtain k where k: "k \<le> length rest"
      and heap: "snd (checkout_loop now (Suc i) rest ?h) = deduct (take k rest) ?h"
      and stock: "in_stock ?h (take k rest)"
      by blast
    from False stock have "in_stock h (take (Suc k) (item # rest))"
      unfolding take_Suc_Cons in_stock_Cons by (simp only: not_less de_Morgan_disj simp_thms)
    moreover have "snd (checkout_loop now i (item # rest) h) = deduct (take (Suc k) (item # rest)) h"
      unfolding step heap take_Suc_Cons deduct_Cons by (rule refl)
    moreover from k have "Suc k \<le> length (item # rest)" by simp
    ultimately show ?thesis by blast
  qed
qed

lemma in_stock_nonneg:
  "in_stock h items \<Longrightarrow> 0 \<le> quantity (h r) \<Longrightarrow> 0 \<le> quantity (h r) - demand items r"
proof (induction items arbitrary: h)
  case Nil
  then show ?case by (simp add: demand_Nil)
next
  case (Cons item rest)
  let ?h = "h(item_product item := (h (item_product item))
                \<lparr>quantity := quantity (h (item_product item)) - item_quantity item\<rparr>)"
  from Cons.prems have ge: "item_quantity item \<le> quantity (h (item_product item))"
    and rest: "in_stock ?h rest"
    unfolding in_stock_Cons by blast+
  from ge Cons.prems(2) have "0 \<le> quantity (?h r)" by simp
  from Cons.IH [OF rest this] show ?case
    by (simp add: demand_Cons split: if_splits)
qed

lemma demand_nonneg: "\<forall>item\<in>set items. 0 \<le> item_quantity item \<Longrightarrow> 0 \<le> demand items r"
  by (induction items) (simp_all add: demand_Nil demand_Cons)

section \<open>Queries and settlement\<close>

text \<open>
  The loop changes quantities only, so the queries that checkout makes after the loop
  (subtotal, shippable items, total weight, names and item totals of the receipt) give
  what they give on the state before checkout. This yields the whole result of a
  checkout whose loop passes, in terms of the state before it.
\<close>

lemma foldl_plus:
  "foldl (\<lambda>acc x. acc + f x) (a::int) xs = a + sum_list (map f xs)"
  by (induction xs arbitrary: a) simp_all

lemma getTotalPrice_deduct: "getTotalPrice (deduct items h) = getTotalPrice h"
  by (rule ext) (simp add: deduct_traits)

lemma getProductName_deduct: "getProductName (deduct items h) = getProductName h"
  by (rule ext) (simp add: deduct_traits)

lemma item_getWeight_deduct: "item_getWeight (deduct items h) = item_getWeight h"
  by (rule ext) (simp add: deduct_traits)

lemma item_isShippable_deduct: "item_isShippable (deduct items h) = item_isShippable h"
  by (rule ext) (simp add: deduct_traits)

lemmas item_deduct =
  getTotalPrice_deduct getProductName_deduct item_getWeight_deduct item_isShippable_deduct

declare getTotalPrice.simps [simp del] getProductName.simps [simp del]
  item_getWeight.simps [simp del] item_isShippable.simps [simp del]

lemma getSubtotal_deduct: "getSubtotal (s\<lparr>heap := deduct items (heap s)\<rparr>) = getSubtotal s"
  by (simp add: item_deduct)

lemma getTotalWeight_deduct:
  "getTotalWeight (s\<lparr>heap := deduct items (heap s)\<rparr>) = getTotalWeight s"
  by (simp add: item_deduct)

lemma checkout_aborts:
  "cart s \<noteq> [] \<Longrightarrow> checkout_loop now 0 (cart s) (heap s) = (Some e, h) \<Longrightarrow>
     checkout now s = (Some e, s\<lparr>heap := h\<rparr>)"
  by simp

lemma checkout_settles:
  assumes "cart s \<noteq> []" and "unexpired now (heap s) (cart s)" and "in_stock (heap s) (cart s)"
  shows "checkout now s =
    (if balance (customer s) < getSubtotal s + shippingFee s
     then (Some (InsufficientBalance (getSubtotal s + shippingFee s) (balance (customer s))),
           s\<lparr>heap := deduct (cart s) (heap s)\<rparr>)
     else (None,
           s\<lparr>heap := deduct (cart s) (heap s),
             customer := (customer s)\<lparr>balance := balance (customer s) - (getSubtotal s + shippingFee s)\<rparr>,
             console := console s @ notice s
               @ receipt (s\<lparr>customer := (customer s)\<lparr>balance := balance (customer s) - (getSubtotal s + shippingFee s)\<rparr>\<rparr>)
                   (getSubtotal s) (shippingFee s) (getSubtotal s + shippingFee s)\<rparr>))"
proof -
  let ?s1 = "s\<lparr>heap := deduct (cart s) (heap s)\<rparr>"
  have loop: "checkout_loop now 0 (cart s) (heap s) = (None, deduct (cart s) (heap s))"
    using loop_passes [of now 0 "heap s" "cart s"] assms by simp
  have q: "getSubtotal ?s1 = getSubtotal s" "getTotalWeight ?s1 = getTotalWeight s"
    by (rule getSubtotal_deduct, rule getTotalWeight_deduct)
  show ?thesis
    using assms(1) loop
    by (simp add: Let_def shippingFee_def notice_def item_deduct q
          del: getSubtotal.simps getTotalWeight.simps)
qed

declare checkout.simps [simp del]



lemma checkout_stops:
  assumes "k < length (cart s)"
    and "unexpired now (heap s) (take k (cart s))"
    and "in_stock (heap s) (take k (cart s))"
    and "item_isExpired (now k) (heap s) (cart s ! k) \<or>
         quantity (heap s (item_product (cart s ! k)))
           - demand (take k (cart s)) (item_product (cart s ! k)) < item_quantity (cart s ! k)"
  shows "checkout now s =
     (Some ((if item_isExpired (now k) (heap s) (cart s ! k) then ExpiredProduct else OutOfStock)
              (name (heap s (item_product (cart s ! k))))),
      s\<lparr>heap := deduct (take k (cart s)) (heap s)\<rparr>)"
proof -
  from assms(1) have "cart s \<noteq> []" by auto
  then show ?thesis
    using loop_stops [OF assms] by (rule checkout_aborts)
qed




lemma checkout_success_iff:
  "fst (checkout now s) = None \<longleftrightarrow>
     cart s \<noteq> [] \<and> unexpired now (heap s) (cart s) \<and> in_stock (heap s) (cart s) \<and>
     \<not> balance (customer s) < getSubtotal s + shippingFee s"
proof (cases "cart s = []")
  case True
  then show ?thesis by (simp add: checkout.simps)
next
  case False
  note passes = loop_None_iff [of now 0 "cart s" "heap s"]
  show ?thesis
  proof (cases "fst (checkout_loop now 0 (cart s) (heap s))")
    case None
    with passes have "unexpired now (heap s) (cart s)" "in_stock (heap s) (cart s)"
      by simp_all
    with False show ?thesis
      by (simp add: checkout_settles)
  next
    case (Some e)
    then have "checkout_loop now 0 (cart s) (heap s)
        = (Some e, snd (checkout_loop now 0 (cart s) (heap s)))"
      by (simp add: prod_eq_iff)
    from checkout_aborts [OF False this] Some passes show ?thesis
      by auto
  qed
qed

lemma checkout_success:
  assumes "fst (checkout now s) = None"
  shows "snd (checkout now s) =
           s\<lparr>heap := deduct (cart s) (heap s),
             customer := (customer s)\<lparr>balance := balance (customer s) - (getSubtotal s + shippingFee s)\<rparr>,
             console := console s @ notice s
               @ receipt (s\<lparr>customer := (customer s)\<lparr>balance := balance (customer s) - (getSubtotal s + shippingFee s)\<rparr>\<rparr>)
                   (getSubtotal s) (shippingFee s) (getSubtotal s + shippingFee s)\<rparr>"
proof -
  from assms have c: "cart s \<noteq> []" "unexpired now (heap s) (cart s)" "in_stock (heap s) (cart s)"
    and b: "\<not> balance (customer s) < getSubtotal s + shippingFee s"
    by (simp_all add: checkout_success_iff)
  from checkout_settles [OF c] b show ?thesis by simp
qed










lemma checkout_heap:
  "heap (snd (checkout now s)) =
     (if cart s = [] then heap s else snd (checkout_loop now 0 (cart s) (heap s)))"
  by (simp add: checkout.simps Let_def split: prod.splits option.splits)


lemma getTotalPrice_fun:
  "getTotalPrice h = (\<lambda>item. price (h (item_product item)) * item_quantity item)"
  by (rule ext) (simp add: getTotalPrice.simps)



lemma checkout_heap_prefix:
  "\<exists>k\<le>length (cart s). heap (snd (checkout now s)) = deduct (take k (cart s)) (heap s) \<and>
      in_stock (heap s) (take k (cart s))"
proof (cases "cart s = []")
  case True
  then show ?thesis by (simp add: checkout_heap deduct_Nil in_stock_Nil)
next
  case False
  with loop_heap_prefix [of "cart s" now 0 "heap s"] show ?thesis
    by (simp only: checkout_heap if_False)
qed

lemma unexpired_Suc_take:
  assumes "k < length items" and "unexpired now h (take (Suc k) items)"
  shows "unexpired now h (take k items)" and "\<not> item_isExpired (now k) h (items ! k)"
  using assms unfolding unexpired_def by simp_all

section \<open>Checkout stopped by an expired product\<close>




section \<open>Checkout stopped by the payment\<close>

text \<open>
  C2. For every customer and every non-empty cart in which no item is expired when the
  loop reaches it and every item finds its quantity in stock, if the total (subtotal plus
  shipping fee) exceeds the customer's balance then checkout throws InsufficientBalance,
  the stock of every product is lowered by the quantities of all the items that hold it,
  and the customer, with the balance, is unchanged.
\<close>

theorem checkout_insufficient_balance:
  assumes "cart s \<noteq> []"
    and "unexpired now (heap s) (cart s)"
    and "in_stock (heap s) (cart s)"
    and "balance (customer s) < getSubtotal s + shippingFee s"
  shows "checkout now s =
           (Some (InsufficientBalance (getSubtotal s + shippingFee s) (balance (customer s))),
            s\<lparr>heap := deduct (cart s) (heap s)\<rparr>) \<and>
         (\<forall>r. quantity (heap (snd (checkout now s)) r)
                = quantity (heap s r) - demand (cart s) r) \<and>
         customer (snd (checkout now s)) = customer s"
  using checkout_settles [OF assms(1-3)] assms(4)
  by (simp add: deduct_traits del: getSubtotal.simps)

theorem checkout_insufficient_balance_witness:
  "cart (demo_state tv_cart) \<noteq> [] \<and>
   unexpired before_expiry (heap (demo_state tv_cart)) (cart (demo_state tv_cart)) \<and>
   in_stock (heap (demo_state tv_cart)) (cart (demo_state tv_cart)) \<and>
   balance (customer (demo_state tv_cart))
     < getSubtotal (demo_state tv_cart) + shippingFee (demo_state tv_cart) \<and>
   fst (checkout before_expiry (demo_state tv_cart)) = Some (InsufficientBalance 1280 1000) \<and>
   quantity (heap (snd (checkout before_expiry (demo_state tv_cart))) 2) = 6 \<and>
   quantity (heap (snd (checkout before_expiry (demo_state tv_cart))) 3) = 9 \<and>
   customer (snd (checkout before_expiry (demo_state tv_cart))) = ali"
proof -
  let ?s = "demo_state tv_cart"
  have h: "cart ?s \<noteq> []" "unexpired before_expiry (heap ?s) (cart ?s)"
    "in_stock (heap ?s) (cart ?s)" "balance (customer ?s) < getSubtotal ?s + shippingFee ?s"
    by code_simp+
  have v: "getSubtotal ?s + shippingFee ?s = 1280" "balance (customer ?s) = 1000"
    "quantity (heap ?s 2) - demand (cart ?s) 2 = 6"
    "quantity (heap ?s 3) - demand (cart ?s) 3 = 9"
    by code_simp+
  have c: "customer ?s = ali"
    by (simp add: demo_state_def)
  from checkout_insufficient_balance [OF h] h v show ?thesis
    by (simp add: c deduct_traits del: getSubtotal.simps)
qed

section \<open>Subtotal, shipping fee and total\<close>

text \<open>
  C3. For every non-empty cart that passes the expiry and stock steps, the subtotal is
  the cart subtotal (the sum of the item totals), the shipping fee is exactly 30 when the
  cart's total shippable weight is greater than zero and 0 otherwise, and the sum of the
  two is the amount passed to the customer's \<open>pay\<close>: checkout throws what \<open>pay\<close> throws for
  that amount and leaves the customer as \<open>pay\<close> leaves it, and a successful checkout ends
  its receipt with this subtotal, fee, amount and the balance that remains.
\<close>

theorem checkout_total:
  assumes "cart s \<noteq> []"
    and "unexpired now (heap s) (cart s)"
    and "in_stock (heap s) (cart s)"
  shows "getSubtotal s = (\<Sum>item\<leftarrow>cart s. getTotalPrice (heap s) item) \<and>
         shippingFee s = (if 0 < getTotalWeight s then 30 else 0) \<and>
         fst (checkout now s) = fst (pay (getSubtotal s + shippingFee s) (customer s)) \<and>
         customer (snd (checkout now s)) = snd (pay (getSubtotal s + shippingFee s) (customer s)) \<and>
         (fst (checkout now s) = None \<longrightarrow>
            (\<exists>before. console (snd (checkout now s)) =
               before @ [ReceiptSubtotal (getSubtotal s), ReceiptShipping (shippingFee s),
                         ReceiptAmount (getSubtotal s + shippingFee s),
                         ReceiptBalance (balance (customer s) - (getSubtotal s + shippingFee s))]))"
proof -
  have sub: "getSubtotal s = (\<Sum>item\<leftarrow>cart s. getTotalPrice (heap s) item)"
    by (simp add: foldl_plus)
  have lines: "\<exists>before. console (snd (checkout now s)) =
               before @ [ReceiptSubtotal (getSubtotal s), ReceiptShipping (shippingFee s),
                         ReceiptAmount (getSubtotal s + shippingFee s),
                         ReceiptBalance (balance (customer s) - (getSubtotal s + shippingFee s))]"
    if "fst (checkout now s) = None"
    unfolding checkout_success [OF that]
    by (rule exI [of _ "console s @ notice s @ [ReceiptHeader]
        @ map (\<lambda>item. ReceiptItem (item_quantity item) (getProductName (heap s) item)
                 (getTotalPrice (heap s) item)) (cart s) @ [ReceiptSeparator]"])
       (simp del: getSubtotal.simps)
  show ?thesis
    using sub lines unfolding checkout_settles [OF assms]
    by (simp add: shippingFee_def del: getSubtotal.simps getTotalWeight.simps)
qed

theorem checkout_total_witness:
  "cart (demo_state demo_cart) \<noteq> [] \<and>
   unexpired before_expiry (heap (demo_state demo_cart)) (cart (demo_state demo_cart)) \<and>
   in_stock (heap (demo_state demo_cart)) (cart (demo_state demo_cart)) \<and>
   getSubtotal (demo_state demo_cart) = 400 \<and>
   shippingFee (demo_state demo_cart) = 30 \<and>
   fst (checkout before_expiry (demo_state demo_cart)) = None \<and>
   balance (customer (snd (checkout before_expiry (demo_state demo_cart)))) = 570"
proof -
  let ?s = "demo_state demo_cart"
  have h: "cart ?s \<noteq> []" "unexpired before_expiry (heap ?s) (cart ?s)" "in_stock (heap ?s) (cart ?s)"
    by code_simp+
  have v: "getSubtotal ?s = 400" "shippingFee ?s = 30" "balance (customer ?s) = 1000"
    by code_simp+
  from checkout_total [OF h] h v show ?thesis
    by (simp del: getSubtotal.simps)
qed

section \<open>Checkout of an empty cart\<close>

text \<open>
  C4. For every customer and every empty cart, checkout throws EmptyCart and leaves the
  whole state as it was: no product's stock changes, the customer's balance is the
  same, and nothing is written to the console (no shipment notice, no receipt).
\<close>

theorem checkout_empty_cart:
  "cart s = [] \<Longrightarrow> checkout now s = (Some EmptyCart, s)"
  by (simp add: checkout.simps)

theorem checkout_empty_cart_witness:
  "cart (demo_state []) = [] \<and>
   checkout before_expiry (demo_state []) = (Some EmptyCart, demo_state [])"
  using checkout_empty_cart [of "demo_state []" before_expiry]
  by (simp add: demo_state_def)

section \<open>Stock reduction\<close>

text \<open>
  C5. For every product and every requested quantity \<open>q\<close>, \<open>reduceQuantity q\<close> throws
  OutOfStock exactly when \<open>q\<close> exceeds the quantity on hand, and then leaves the product
  as it was; otherwise it throws nothing, lowers the quantity on hand by \<open>q\<close> and changes
  no other field of the product.
\<close>

theorem reduceQuantity_spec:
  "(fst (reduceQuantity q p) \<noteq> None \<longleftrightarrow> quantity p < q) \<and>
   (quantity p < q \<longrightarrow> reduceQuantity q p = (Some (OutOfStock (name p)), p)) \<and>
   (\<not> quantity p < q \<longrightarrow>
      fst (reduceQuantity q p) = None \<and>
      quantity (snd (reduceQuantity q p)) = quantity p - q \<and>
      name (snd (reduceQuantity q p)) = name p \<and>
      price (snd (reduceQuantity q p)) = price p \<and>
      variant (snd (reduceQuantity q p)) = variant p \<and>
      snd (reduceQuantity q p) = p\<lparr>quantity := quantity p - q\<rparr>)"
  by simp

theorem reduceQuantity_spec_witness:
  "quantity tv < 11 \<and> reduceQuantity 11 tv = (Some (OutOfStock ''TV''), tv) \<and>
   \<not> quantity tv < 3 \<and> snd (reduceQuantity 3 tv) = tv\<lparr>quantity := 7\<rparr>"
  using reduceQuantity_spec [of 11 tv] reduceQuantity_spec [of 3 tv]
  by (simp add: tv_def)

section \<open>Adding to the cart\<close>

text \<open>
  C6. \<open>add\<close> throws InsufficientStock exactly when the quantity exceeds the product's
  quantity on hand at that time, and then changes nothing; otherwise it appends a new
  cart item and leaves every product, with its stock, as it was. The check does not
  reserve stock: there is a state in which two adds of the same product each succeed and
  checkout then throws OutOfStock.
\<close>

theorem add_is_advisory:
  "fst (add r q s) =
     (if q > quantity (heap s r) then Some (InsufficientStock (name (heap s r))) else None) \<and>
   (q > quantity (heap s r) \<longrightarrow> snd (add r q s) = s) \<and>
   (\<not> q > quantity (heap s r) \<longrightarrow>
      snd (add r q s) = s\<lparr>cart := cart s @ [\<lparr>item_product = r, item_quantity = q\<rparr>]\<rparr>) \<and>
   heap (snd (add r q s)) = heap s \<and>
   (\<exists>s\<^sub>0 r\<^sub>0 q\<^sub>0 now.
      fst (add r\<^sub>0 q\<^sub>0 s\<^sub>0) = None \<and>
      fst (add r\<^sub>0 q\<^sub>0 (snd (add r\<^sub>0 q\<^sub>0 s\<^sub>0))) = None \<and>
      fst (checkout now (snd (add r\<^sub>0 q\<^sub>0 (snd (add r\<^sub>0 q\<^sub>0 s\<^sub>0)))))
        = Some (OutOfStock (name (heap s\<^sub>0 r\<^sub>0))))"
proof -
  have "fst (add 2 6 (demo_state [])) = None \<and>
      fst (add 2 6 (snd (add 2 6 (demo_state [])))) = None \<and>
      fst (checkout before_expiry (snd (add 2 6 (snd (add 2 6 (demo_state []))))))
        = Some (OutOfStock (name (heap (demo_state []) 2)))"
    by code_simp
  then have "\<exists>s\<^sub>0 r\<^sub>0 q\<^sub>0 now.
      fst (add r\<^sub>0 q\<^sub>0 s\<^sub>0) = None \<and>
      fst (add r\<^sub>0 q\<^sub>0 (snd (add r\<^sub>0 q\<^sub>0 s\<^sub>0))) = None \<and>
      fst (checkout now (snd (add r\<^sub>0 q\<^sub>0 (snd (add r\<^sub>0 q\<^sub>0 s\<^sub>0)))))
        = Some (OutOfStock (name (heap s\<^sub>0 r\<^sub>0)))"
    by blast
  then show ?thesis by simp
qed

theorem add_is_advisory_witness:
  "quantity (heap (demo_state []) 2) = 10 \<and>
   add 2 11 (demo_state []) = (Some (InsufficientStock ''TV''), demo_state []) \<and>
   add 2 6 (demo_state []) = (None, demo_state [\<lparr>item_product = 2, item_quantity = 6\<rparr>]) \<and>
   add 2 6 (demo_state [\<lparr>item_product = 2, item_quantity = 6\<rparr>]) = (None, demo_state double_cart) \<and>
   fst (checkout before_expiry (demo_state double_cart)) = Some (OutOfStock ''TV'')"
proof -
  have "fst (checkout before_expiry (demo_state double_cart)) = Some (OutOfStock ''TV'')"
    by code_simp
  with add_is_advisory [where r = 2 and q = 11 and s = "demo_state []"]
    add_is_advisory [where r = 2 and q = 6 and s = "demo_state []"]
    add_is_advisory [where r = 2 and q = 6
      and s = "demo_state [\<lparr>item_product = 2, item_quantity = 6\<rparr>]"]
  show ?thesis
    by (simp add: prod_eq_iff demo_state_def demo_heap_def tv_def double_cart_def)
qed

section \<open>The stock invariant\<close>

text \<open>
  C7 (corrected). The only operation that changes a product is checkout's
  stock-reduction step, and it changes nothing but the quantity on hand: after a checkout
  the heap is the one its loop leaves, and \<open>add\<close> and \<open>ship\<close> leave the heap alone. A
  stock that is not negative stays so: a reduction that would drive it below zero throws
  OutOfStock and leaves the product as it was, in \<open>reduceQuantity\<close> and so in checkout,
  whose earlier reductions stay. When no cart item asks for a negative quantity, no
  product's stock is higher after a checkout than before.
\<close>

theorem stock_invariant:
  "(\<forall>r. 0 \<le> quantity (heap s r) \<longrightarrow> 0 \<le> quantity (heap (snd (checkout now s)) r)) \<and>
   ((\<forall>item\<in>set (cart s). 0 \<le> item_quantity item) \<longrightarrow>
      (\<forall>r. quantity (heap (snd (checkout now s)) r) \<le> quantity (heap s r))) \<and>
   (\<forall>r. heap (snd (checkout now s)) r
          = (heap s r)\<lparr>quantity := quantity (heap (snd (checkout now s)) r)\<rparr>) \<and>
   heap (snd (checkout now s))
     = (if cart s = [] then heap s else snd (checkout_loop now 0 (cart s) (heap s))) \<and>
   (quantity p - q < 0 \<longrightarrow> reduceQuantity q p = (Some (OutOfStock (name p)), p)) \<and>
   (0 \<le> quantity p - q \<longrightarrow> reduceQuantity q p = (None, p\<lparr>quantity := quantity p - q\<rparr>)) \<and>
   (k < length (cart s) \<and> unexpired now (heap s) (take (Suc k) (cart s)) \<and>
    in_stock (heap s) (take k (cart s)) \<and>
    quantity (heap s (item_product (cart s ! k)))
      - demand (take k (cart s)) (item_product (cart s ! k)) - item_quantity (cart s ! k) < 0 \<longrightarrow>
      checkout now s = (Some (OutOfStock (name (heap s (item_product (cart s ! k))))),
                        s\<lparr>heap := deduct (take k (cart s)) (heap s)\<rparr>)) \<and>
   heap (snd (add r q s)) = heap s \<and>
   heap (ship items s) = heap s"
proof -
  obtain n where heap: "heap (snd (checkout now s)) = deduct (take n (cart s)) (heap s)"
    and stock: "in_stock (heap s) (take n (cart s))"
    using checkout_heap_prefix by blast
  have nonneg: "0 \<le> quantity (heap (snd (checkout now s)) r)" if "0 \<le> quantity (heap s r)" for r
    unfolding heap deduct_traits using stock that by (rule in_stock_nonneg)
  have lower: "quantity (heap (snd (checkout now s)) r) \<le> quantity (heap s r)"
    if "\<forall>item\<in>set (cart s). 0 \<le> item_quantity item" for r
  proof -
    from that have "\<forall>item\<in>set (take n (cart s)). 0 \<le> item_quantity item"
      by (blast dest: in_set_takeD)
    from demand_nonneg [OF this, of r] show ?thesis
      unfolding heap deduct_traits by simp
  qed
  have traits: "heap (snd (checkout now s)) r
      = (heap s r)\<lparr>quantity := quantity (heap (snd (checkout now s)) r)\<rparr>" for r
    unfolding heap by (simp add: deduct_def)
  have short: "checkout now s = (Some (OutOfStock (name (heap s (item_product (cart s ! k))))),
                        s\<lparr>heap := deduct (take k (cart s)) (heap s)\<rparr>)"
    if "k < length (cart s)" "unexpired now (heap s) (take (Suc k) (cart s))"
      "in_stock (heap s) (take k (cart s))"
      "quantity (heap s (item_product (cart s ! k)))
        - demand (take k (cart s)) (item_product (cart s ! k)) - item_quantity (cart s ! k) < 0"
    using checkout_stops [OF that(1) unexpired_Suc_take(1) [OF that(1,2)] that(3)]
      unexpired_Suc_take(2) [OF that(1,2)] that(4)
    by simp
  show ?thesis
    using nonneg lower traits short checkout_heap [of now s]
    by (simp add: Let_def)
qed

theorem stock_invariant_witness:
  "0 \<le> quantity (heap (demo_state double_cart) 2) \<and>
   0 \<le> quantity (heap (snd (checkout before_expiry (demo_state double_cart))) 2) \<and>
   quantity (heap (snd (checkout before_expiry (demo_state double_cart))) 2)
     \<le> quantity (heap (demo_state double_cart) 2) \<and>
   fst (checkout before_expiry (demo_state double_cart)) = Some (OutOfStock ''TV'') \<and>
   quantity (heap (snd (checkout before_expiry (demo_state double_cart))) 2) = 4 \<and>
   reduceQuantity 11 tv = (Some (OutOfStock ''TV''), tv) \<and>
   reduceQuantity 3 tv = (None, tv\<lparr>quantity := 7\<rparr>)"
proof -
  let ?s = "demo_state double_cart"
  have h: "0 \<le> quantity (heap ?s 2)" "\<forall>item\<in>set (cart ?s). 0 \<le> item_quantity item"
    "1 < length (cart ?s)" "unexpired before_expiry (heap ?s) (take (Suc 1) (cart ?s))"
    "in_stock (heap ?s) (take 1 (cart ?s))"
    "quantity (heap ?s (item_product (cart ?s ! 1)))
      - demand (take 1 (cart ?s)) (item_product (cart ?s ! 1)) - item_quantity (cart ?s ! 1) < 0"
    "quantity tv - 11 < 0" "0 \<le> quantity tv - 3"
    by code_simp+
  have v: "name (heap ?s (item_product (cart ?s ! 1))) = ''TV''"
    "quantity (heap ?s 2) - demand (take 1 (cart ?s)) 2 = 4"
    "name tv = ''TV''" "quantity tv - 3 = 7"
    by code_simp+
  note short = stock_invariant [where s = ?s and now = before_expiry and p = tv and q = 11 and k = 1]
  note enough = stock_invariant [where s = ?s and now = before_expiry and p = tv and q = 3]
  from short h(1) have a: "0 \<le> quantity (heap (snd (checkout before_expiry ?s)) 2)"
    by blast
  from short h(2)
  have b: "quantity (heap (snd (checkout before_expiry ?s)) 2) \<le> quantity (heap ?s 2)"
    by blast
  from short h(3-6) have c: "checkout before_expiry ?s =
      (Some (OutOfStock (name (heap ?s (item_product (cart ?s ! 1))))),
       ?s\<lparr>heap := deduct (take 1 (cart ?s)) (heap ?s)\<rparr>)"
    by blast
  from short h(7) have d: "reduceQuantity 11 tv = (Some (OutOfStock (name tv)), tv)"
    by blast
  from enough h(8) have e: "reduceQuantity 3 tv = (None, tv\<lparr>quantity := quantity tv - 3\<rparr>)"
    by blast
  from a b h(1) v show ?thesis
    unfolding c d e by (simp add: deduct_traits)
qed

text \<open>
  That the quantity on hand only decreases does not hold for every cart. \<open>add\<close> accepts a
  negative quantity, and the reduction subtracts it: with minus two TVs in the cart,
  checkout succeeds and the TV's stock goes from 10 to 12.
\<close>

theorem negative_quantity_counterexample:
  "fst (add 2 (- 2) (demo_state [])) = None \<and>
   fst (checkout before_expiry (snd (add 2 (- 2) (demo_state [])))) = None \<and>
   quantity (heap (demo_state []) 2) = 10 \<and>
   quantity (heap (snd (checkout before_expiry (snd (add 2 (- 2) (demo_state []))))) 2) = 12"
  by code_simp

section \<open>Cart queries\<close>

text \<open>
  C8. For every cart, \<open>getSubtotal\<close> is the sum over all cart items of the product's
  price times the requested quantity. Shippability and expiry play no part: the result
  is the same whatever the variants of the products are. The query is a function of the
  state and returns only a number.
\<close>

theorem getSubtotal_sum:
  "getSubtotal s = (\<Sum>item\<leftarrow>cart s. price (heap s (item_product item)) * item_quantity item) \<and>
   getSubtotal (s\<lparr>heap := \<lambda>r. (heap s r)\<lparr>variant := v r\<rparr>\<rparr>) = getSubtotal s"
  by (simp add: foldl_plus getTotalPrice_fun)

theorem getSubtotal_sum_witness:
  "getSubtotal (demo_state demo_cart) = 400"
proof -
  have "(\<Sum>item\<leftarrow>cart (demo_state demo_cart).
           price (heap (demo_state demo_cart) (item_product item)) * item_quantity item) = 400"
    by code_simp
  with getSubtotal_sum [of "demo_state demo_cart", THEN conjunct1] show ?thesis
    by (simp only:)
qed



section \<open>Shipment notice and shipping fee\<close>



end
